theory Spec2Isabelle
  imports Main "HOL-Library.Word" "HOL-Library.Sublist"
begin

section \<open>The CMSIS-DAP HID backend (src/jtag/drivers/cmsis\_dap\_usb\_hid.c)\<close>

subsection \<open>C types\<close>

text \<open>
  C integers are words of their width. A signed \<open>int\<close> is a \<open>32 word\<close> read with
  \<open>sint\<close>; the conversion of an \<open>int\<close> to \<open>unsigned int\<close> keeps the bits, so it is the
  identity on the word. A wide string (\<open>wchar_t *\<close>) is the list of its wide characters
  before the terminating zero, a narrow string (\<open>char *\<close>) is a \<open>string\<close>; a pointer that
  may be \<open>NULL\<close> is an \<open>option\<close>.
\<close>

type_synonym uint16_t = "16 word"
type_synonym uint8_t = "8 word"
type_synonym c_uint = "32 word"
type_synonym c_int = "32 word"
type_synonym wstring = "nat list"
type_synonym hid_device = nat

subsection \<open>The report size table\<close>

record cmsis_dap_report_size =
  vid :: uint16_t
  pid :: uint16_t
  report_size :: c_uint

definition report_size_quirks :: "cmsis_dap_report_size list" where
  "report_size_quirks =
    [\<lparr>vid = 0x03eb, pid = 0x2140, report_size = 512\<rparr>,
     \<lparr>vid = 0x03eb, pid = 0x2141, report_size = 512\<rparr>,
     \<lparr>vid = 0x03eb, pid = 0x2144, report_size = 512\<rparr>,
     \<lparr>vid = 0x03eb, pid = 0x2111, report_size = 512\<rparr>,
     \<lparr>vid = 0x03eb, pid = 0x2157, report_size = 512\<rparr>,
     \<lparr>vid = 0x03eb, pid = 0x2169, report_size = 512\<rparr>,
     \<lparr>vid = 0x03eb, pid = 0x216a, report_size = 512\<rparr>,
     \<lparr>vid = 0x03eb, pid = 0x2170, report_size = 512\<rparr>,
     \<lparr>vid = 0, pid = 0, report_size = 0\<rparr>]"

text \<open>
  The loop of \<open>cmsis_dap_hid_open\<close> over the table (lines 177 to 182):
  \<open>for (i = 0; report_size_quirks[i].vid != 0; i++)\<close>. The list argument is the part
  of the array from index \<open>i\<close> on, the last argument the current \<open>packet_size\<close>. The
  loop has no \<open>break\<close>: a later matching entry overwrites an earlier one.
\<close>

fun quirk_loop :: "cmsis_dap_report_size list \<Rightarrow> uint16_t \<Rightarrow> uint16_t \<Rightarrow> c_uint \<Rightarrow> c_uint" where
  "quirk_loop [] target_vid target_pid packet_size = packet_size"
| "quirk_loop (q # qs) target_vid target_pid packet_size =
     (if vid q \<noteq> 0
      then quirk_loop qs target_vid target_pid
             (if vid q = target_vid \<and> pid q = target_pid then report_size q else packet_size)
      else packet_size)"

text \<open>Lines 174 to 182: \<open>unsigned int packet_size = 64;\<close> followed by the loop.\<close>

definition lookup_report_size :: "uint16_t \<Rightarrow> uint16_t \<Rightarrow> c_uint" where
  "lookup_report_size target_vid target_pid =
     quirk_loop report_size_quirks target_vid target_pid 64"


subsection \<open>What the headers outside this file declare\<close>

text \<open>
  Modelled from the spec: \<open>REPORT_ID_SIZE\<close> is a macro of cmsis\_dap.h, which is not
  part of the sources at hand. The spec gives the report prefix size as one byte
  (the HID report id).
\<close>

definition REPORT_ID_SIZE :: c_uint where
  "REPORT_ID_SIZE = 1"

text \<open>
  The return codes of helper/log.h that this file uses. \<open>ERROR_OK\<close> is the right
  injection of the result type \<open>error + 'a\<close>; a function that returns a count on
  success, or any other \<open>int\<close> as it is, returns \<open>Inr\<close> of it.
\<close>

datatype error = ERROR_FAIL | ERROR_TIMEOUT_REACHED

datatype cmsis_dap_blocking = CMSIS_DAP_NON_BLOCKING | CMSIS_DAP_BLOCKING

text \<open>
  A call either returns or has undefined behaviour in C (a read or write outside an
  allocation, a dereference of \<open>NULL\<close>, a read of memory never written).
\<close>

datatype 'a outcome = Undefined | Returns 'a

text \<open>\<open>struct hid_device_info\<close> of HIDAPI, the fields this file reads.\<close>

record hid_device_info =
  path :: string
  vendor_id :: uint16_t
  product_id :: uint16_t
  serial_number :: "wstring option"
  product_string :: "wstring option"
  interface_number :: c_int

text \<open>
  \<open>struct cmsis_dap\<close>, the fields this file uses. \<open>command\<close> and \<open>response\<close> point into
  the packet buffer; they are kept as offsets from \<open>packet_buffer\<close>.
\<close>

record cmsis_dap_backend_data =
  dev_handle :: "hid_device option"

record cmsis_dap =
  bdata :: "cmsis_dap_backend_data option"
  packet_size :: c_uint
  packet_usable_size :: c_uint
  packet_buffer_size :: c_uint
  packet_buffer :: "uint8_t list option"
  command :: "nat option"
  response :: "nat option"

subsection \<open>The host: HIDAPI and libc\<close>

text \<open>
  What the calls into HIDAPI and libc return is not decided by this file; a \<open>host\<close>
  fixes it. \<open>mbstowcs_ret s = None\<close> stands for the result \<open>(size_t)-1\<close> of an invalid
  multibyte sequence. \<open>malloc_wserial i\<close> tells whether the allocation of the serial
  buffer succeeds while the \<open>i\<close>-th enumerated device is examined;
  \<open>malloc_packet_buffer n\<close> is the fresh block of \<open>n\<close> bytes, with whatever content
  the heap has, or \<open>None\<close> for \<open>NULL\<close>.
\<close>

record host =
  hid_init_ret :: c_int
  hid_enumerate_ret :: "hid_device_info list"
  mbstowcs_ret :: "string \<Rightarrow> wstring option"
  malloc_wserial :: "nat \<Rightarrow> bool"
  malloc_bdata :: bool
  malloc_packet_buffer :: "nat \<Rightarrow> (nat \<Rightarrow> uint8_t) option"
  hid_open_path_ret :: "string \<Rightarrow> hid_device option"
  hid_read_timeout_ret :: "hid_device \<Rightarrow> nat \<Rightarrow> c_int \<Rightarrow> c_int \<times> uint8_t list"
  hid_write_ret :: "hid_device \<Rightarrow> uint8_t list \<Rightarrow> c_int"

text \<open>
  What the calls leave behind in the host: whether the library is initialised, the
  enumerations obtained with \<open>hid_enumerate\<close> and not yet given back with
  \<open>hid_free_enumeration\<close>, the handles opened and not yet closed, and the calls of
  \<open>hid_write\<close> made so far (handle and bytes passed).
\<close>

record hid_state =
  hid_initialized :: bool
  live_enumerations :: nat
  open_devices :: "hid_device list"
  hid_write_calls :: "(hid_device \<times> uint8_t list) list"

subsection \<open>libc\<close>

text \<open>The wide string literal \<open>L"..."\<close> of an ASCII text.\<close>

definition L :: "string \<Rightarrow> wstring" where
  "L s = map of_char s"

text \<open>
  \<open>wcsstr\<close>: the rest of the haystack from the first occurrence of the needle on, or
  \<open>NULL\<close>.
\<close>

fun wcsstr :: "wstring \<Rightarrow> wstring \<Rightarrow> wstring option" where
  "wcsstr [] needle = (if needle = [] then Some [] else None)"
| "wcsstr (c # cs) needle =
     (if prefix needle (c # cs) then Some (c # cs) else wcsstr cs needle)"

text \<open>
  \<open>memset(p, c, n)\<close> where \<open>p\<close> is \<open>start\<close> bytes from the beginning of the block
  \<open>buf\<close>: \<open>None\<close> when the \<open>n\<close> bytes are not all inside the block.
\<close>

definition memset :: "uint8_t list \<Rightarrow> int \<Rightarrow> uint8_t \<Rightarrow> nat \<Rightarrow> uint8_t list option" where
  "memset buf start c n =
     (if 0 \<le> start \<and> start + int n \<le> int (length buf)
      then Some (take (nat start) buf @ replicate n c @ drop (nat start + n) buf)
      else None)"

subsection \<open>Opening: the scan of the enumeration\<close>

text \<open>
  The arrays \<open>vids[]\<close> and \<open>pids[]\<close> are only read at the same index, so they are one
  list of pairs: element \<open>i\<close> is \<open>(vids[i], pids[i])\<close>. The caller ends the arrays
  with a pair of zeros; the end of the list stands for it.
\<close>

type_synonym id_list = "(uint16_t \<times> uint16_t) list"

text \<open>\<open>vids[0]\<close>\<close>

definition first_vid :: "id_list \<Rightarrow> uint16_t" where
  "first_vid ids = (case ids of [] \<Rightarrow> 0 | (v, p) # _ \<Rightarrow> v)"

text \<open>
  Lines 108 to 111: \<open>for (i = 0; vids[i] || pids[i]; i++)\<close>, the list being the arrays
  from index \<open>i\<close> on and the last argument the current \<open>found\<close>.
\<close>

fun vid_pid_loop :: "id_list \<Rightarrow> hid_device_info \<Rightarrow> bool \<Rightarrow> bool" where
  "vid_pid_loop [] cur_dev found = found"
| "vid_pid_loop ((v, p) # ids) cur_dev found =
     (if v \<noteq> 0 \<or> p \<noteq> 0
      then vid_pid_loop ids cur_dev
             (if v = vendor_id cur_dev \<and> p = product_id cur_dev then True else found)
      else found)"

text \<open>Lines 94 to 112: \<open>found\<close> after the comparison with the filter.\<close>

definition filter_found :: "id_list \<Rightarrow> hid_device_info \<Rightarrow> bool" where
  "filter_found ids cur_dev =
     (if first_vid ids = 0
      then (case product_string cur_dev of
              None \<Rightarrow> False
            | Some ps \<Rightarrow> wcsstr ps (L ''CMSIS-DAP'') \<noteq> None)
      else vid_pid_loop ids cur_dev False)"

text \<open>Lines 114 to 116: \<open>found\<close> after the LPC-LINK2 check.\<close>

definition device_found :: "id_list \<Rightarrow> hid_device_info \<Rightarrow> bool" where
  "device_found ids cur_dev =
     (if vendor_id cur_dev = 0x1fc9 \<and> product_id cur_dev = 0x0090
         \<and> interface_number cur_dev \<noteq> 0
      then False
      else filter_found ids cur_dev)"

text \<open>
  The \<open>while (cur_dev)\<close> loop, lines 93 to 143. It ends with \<open>cur_dev\<close> at the device
  of the \<open>break\<close> or at \<open>NULL\<close>, or leaves the function at line 128. When \<open>mbstowcs\<close>
  reports an invalid sequence, \<open>len\<close> is \<open>(size_t)-1 + 1 = 0\<close>, nothing is written to
  the block of zero bytes, and \<open>wcscmp\<close> reads it: undefined behaviour.
\<close>

datatype scan_exit =
    Loop_Done "hid_device_info option"
  | Return_Fail
  | Scan_Undefined

fun scan_loop :: "host \<Rightarrow> id_list \<Rightarrow> string option \<Rightarrow> nat \<Rightarrow> hid_device_info list \<Rightarrow> scan_exit" where
  "scan_loop H ids serial i [] = Loop_Done None"
| "scan_loop H ids serial i (cur_dev # next) =
     (if device_found ids cur_dev
      then (case serial of
              None \<Rightarrow> Loop_Done (Some cur_dev)
            | Some s \<Rightarrow>
               (case serial_number cur_dev of
                  None \<Rightarrow> scan_loop H ids serial (Suc i) next
                | Some sn \<Rightarrow>
                   (if \<not> malloc_wserial H i then Return_Fail
                    else (case mbstowcs_ret H s of
                            None \<Rightarrow> Scan_Undefined
                          | Some wserial \<Rightarrow>
                             (if wserial = sn then Loop_Done (Some cur_dev)
                              else scan_loop H ids serial (Suc i) next)))))
      else scan_loop H ids serial (Suc i) next)"

subsection \<open>Packet buffer\<close>

definition cmsis_dap_hid_alloc :: "host \<Rightarrow> cmsis_dap \<Rightarrow> c_uint \<Rightarrow> (error + unit) \<times> cmsis_dap" where
  "cmsis_dap_hid_alloc H dap pkt_sz =
     (let packet_buffer_size' = pkt_sz + REPORT_ID_SIZE
      in case malloc_packet_buffer H (unat packet_buffer_size') of
           None \<Rightarrow> (Inl ERROR_FAIL, dap)
         | Some content \<Rightarrow>
            (Inr (),
             dap\<lparr>packet_buffer := Some (map content [0 ..< unat packet_buffer_size']),
                 packet_size := pkt_sz,
                 packet_usable_size := pkt_sz,
                 packet_buffer_size := packet_buffer_size',
                 command := Some (unat REPORT_ID_SIZE),
                 response := Some 0\<rparr>))"

definition cmsis_dap_hid_free :: "cmsis_dap \<Rightarrow> cmsis_dap" where
  "cmsis_dap_hid_free dap = dap\<lparr>packet_buffer := None\<rparr>"

subsection \<open>Close\<close>

definition cmsis_dap_hid_close :: "hid_state \<Rightarrow> cmsis_dap \<Rightarrow> (hid_state \<times> cmsis_dap) outcome" where
  "cmsis_dap_hid_close W dap =
     (case bdata dap of
        None \<Rightarrow> Undefined
      | Some bd \<Rightarrow>
         (case dev_handle bd of
            None \<Rightarrow> Undefined
          | Some h \<Rightarrow>
             (if h \<notin> set (open_devices W) then Undefined
              else Returns (W\<lparr>open_devices := remove1 h (open_devices W),
                              hid_initialized := False\<rparr>,
                            cmsis_dap_hid_free (dap\<lparr>bdata := None\<rparr>)))))"

subsection \<open>Open\<close>

text \<open>Lines 155 to 196, reached with \<open>cur_dev\<close>, \<open>target_vid\<close> and \<open>target_pid\<close> set.\<close>

definition open_device ::
  "host \<Rightarrow> hid_state \<Rightarrow> cmsis_dap \<Rightarrow> hid_device_info option \<Rightarrow> uint16_t \<Rightarrow> uint16_t
   \<Rightarrow> ((error + unit) \<times> hid_state \<times> cmsis_dap) outcome" where
  "open_device H W dap cur_dev target_vid target_pid =
     (if \<not> malloc_bdata H then Returns (Inl ERROR_FAIL, W, dap\<lparr>bdata := None\<rparr>)
      else
        (case cur_dev of
           None \<Rightarrow> Undefined
         | Some d \<Rightarrow>
            (let dap1 = dap\<lparr>bdata := Some \<lparr>dev_handle = None\<rparr>\<rparr>;
                 dev = hid_open_path_ret H (path d);
                 W1 = W\<lparr>live_enumerations := live_enumerations W - 1\<rparr>
             in case dev of
                  None \<Rightarrow> Returns (Inl ERROR_FAIL, W1, dap1)
                | Some h \<Rightarrow>
                   (let W2 = W1\<lparr>open_devices := h # open_devices W1\<rparr>;
                        packet_size' = lookup_report_size target_vid target_pid;
                        dap2 = dap1\<lparr>bdata := Some \<lparr>dev_handle = Some h\<rparr>\<rparr>
                    in case cmsis_dap_hid_alloc H dap2 packet_size' of
                         (Inl e, dap3) \<Rightarrow>
                           (case cmsis_dap_hid_close W2 dap3 of
                              Undefined \<Rightarrow> Undefined
                            | Returns (W3, dap4) \<Rightarrow> Returns (Inl ERROR_FAIL, W3, dap4))
                       | (Inr u, dap3) \<Rightarrow>
                           Returns (Inr (), W2,
                                    dap3\<lparr>command := Some (unat REPORT_ID_SIZE),
                                         response := Some 0\<rparr>)))))"

text \<open>\<open>cmsis_dap_hid_open\<close>, lines 71 to 153, continued by \<open>open_device\<close>.\<close>

definition cmsis_dap_hid_open ::
  "host \<Rightarrow> hid_state \<Rightarrow> cmsis_dap \<Rightarrow> id_list \<Rightarrow> string option
   \<Rightarrow> ((error + unit) \<times> hid_state \<times> cmsis_dap) outcome" where
  "cmsis_dap_hid_open H W dap ids serial =
     (if hid_init_ret H \<noteq> 0 then Returns (Inl ERROR_FAIL, W, dap)
      else
        (let W1 = W\<lparr>hid_initialized := True,
                    live_enumerations := Suc (live_enumerations W)\<rparr>
         in case scan_loop H ids serial 0 (hid_enumerate_ret H) of
              Scan_Undefined \<Rightarrow> Undefined
            | Return_Fail \<Rightarrow> Returns (Inl ERROR_FAIL, W1, dap)
            | Loop_Done cur_dev \<Rightarrow>
               (let target_vid = (case cur_dev of None \<Rightarrow> 0 | Some d \<Rightarrow> vendor_id d);
                    target_pid = (case cur_dev of None \<Rightarrow> 0 | Some d \<Rightarrow> product_id d)
                in if target_vid = 0 \<and> target_pid = 0
                   then Returns (Inl ERROR_FAIL,
                                 W1\<lparr>live_enumerations := live_enumerations W1 - 1\<rparr>, dap)
                   else open_device H W1 dap cur_dev target_vid target_pid)))"

subsection \<open>Read, write, cancel\<close>

definition cmsis_dap_hid_read ::
  "host \<Rightarrow> hid_state \<Rightarrow> cmsis_dap \<Rightarrow> c_int \<Rightarrow> cmsis_dap_blocking
   \<Rightarrow> ((error + c_int) \<times> hid_state \<times> cmsis_dap) outcome" where
  "cmsis_dap_hid_read H W dap transfer_timeout_ms blocking =
     (let wait_ms = (if blocking = CMSIS_DAP_NON_BLOCKING then 0 else transfer_timeout_ms)
      in case bdata dap of
           None \<Rightarrow> Undefined
         | Some bd \<Rightarrow>
            (case dev_handle bd of
               None \<Rightarrow> Undefined
             | Some h \<Rightarrow>
                (case packet_buffer dap of
                   None \<Rightarrow> Undefined
                 | Some buf \<Rightarrow>
                    (if h \<notin> set (open_devices W)
                        \<or> length buf < unat (packet_buffer_size dap)
                     then Undefined
                     else
                       (let (retval, data) =
                              hid_read_timeout_ret H h (unat (packet_buffer_size dap)) wait_ms;
                            stored = take (unat (packet_buffer_size dap)) data;
                            dap' = dap\<lparr>packet_buffer :=
                                         Some (stored @ drop (length stored) buf)\<rparr>
                        in if retval = 0 then Returns (Inl ERROR_TIMEOUT_REACHED, W, dap')
                           else if retval = - 1 then Returns (Inl ERROR_FAIL, W, dap')
                           else Returns (Inr retval, W, dap'))))))"

definition cmsis_dap_hid_write ::
  "host \<Rightarrow> hid_state \<Rightarrow> cmsis_dap \<Rightarrow> c_int \<Rightarrow> c_int
   \<Rightarrow> ((error + c_int) \<times> hid_state \<times> cmsis_dap) outcome" where
  "cmsis_dap_hid_write H W dap txlen timeout_ms =
     (case packet_buffer dap of
        None \<Rightarrow> Undefined
      | Some buf \<Rightarrow>
         (if length buf = 0 then Undefined
          else
            (case command dap of
               None \<Rightarrow> Undefined
             | Some cmd \<Rightarrow>
                (case memset (buf[0 := 0]) (int cmd + sint txlen) 0
                        (unat (packet_size dap - txlen)) of
                   None \<Rightarrow> Undefined
                 | Some buf' \<Rightarrow>
                    (case bdata dap of
                       None \<Rightarrow> Undefined
                     | Some bd \<Rightarrow>
                        (case dev_handle bd of
                           None \<Rightarrow> Undefined
                         | Some h \<Rightarrow>
                            (if h \<notin> set (open_devices W)
                                \<or> length buf' < unat (packet_buffer_size dap)
                             then Undefined
                             else
                               (let report = take (unat (packet_buffer_size dap)) buf';
                                    retval = hid_write_ret H h report;
                                    W' = W\<lparr>hid_write_calls :=
                                              hid_write_calls W @ [(h, report)]\<rparr>;
                                    dap' = dap\<lparr>packet_buffer := Some buf'\<rparr>
                                in if retval = - 1 then Returns (Inl ERROR_FAIL, W', dap')
                                   else Returns (Inr retval, W', dap')))))))))"

definition cmsis_dap_hid_cancel_all :: "cmsis_dap \<Rightarrow> cmsis_dap" where
  "cmsis_dap_hid_cancel_all dap = dap"

subsection \<open>The predicates of the specification\<close>

text \<open>
  The filter that the arrays carry: the pairs before the first pair of zeros.
\<close>

definition filter_pairs :: "id_list \<Rightarrow> id_list" where
  "filter_pairs ids = takeWhile (\<lambda>(v, p). v \<noteq> 0 \<or> p \<noteq> 0) ids"

text \<open>The product string exists and contains the text CMSIS-DAP.\<close>

definition has_marker :: "hid_device_info \<Rightarrow> bool" where
  "has_marker d =
     (case product_string d of None \<Rightarrow> False | Some ps \<Rightarrow> sublist (L ''CMSIS-DAP'') ps)"

text \<open>
  The predicate of the filter: the marker when the filter is taken as empty, which
  the code decides by \<open>vids[0] == 0\<close>, and equality with a pair of the filter otherwise.
\<close>

definition filter_predicate :: "id_list \<Rightarrow> hid_device_info \<Rightarrow> bool" where
  "filter_predicate ids d =
     (if first_vid ids = 0 then has_marker d
      else (vendor_id d, product_id d) \<in> set (filter_pairs ids))"

text \<open>The serial number asked for, as a wide string, is the device's.\<close>

definition serial_predicate :: "wstring option \<Rightarrow> hid_device_info \<Rightarrow> bool" where
  "serial_predicate wserial d =
     (case wserial of None \<Rightarrow> True | Some w \<Rightarrow> serial_number d = Some w)"

text \<open>The composite adapter 0x1fc9:0x0090 on an interface other than 0.\<close>

definition lpc_link2_other_interface :: "hid_device_info \<Rightarrow> bool" where
  "lpc_link2_other_interface d =
     (vendor_id d = 0x1fc9 \<and> product_id d = 0x0090 \<and> interface_number d \<noteq> 0)"

definition active_predicate :: "id_list \<Rightarrow> wstring option \<Rightarrow> hid_device_info \<Rightarrow> bool" where
  "active_predicate ids wserial d =
     (filter_predicate ids d \<and> \<not> lpc_link2_other_interface d \<and> serial_predicate wserial d)"

text \<open>
  The conversion of the serial number asked for goes through: \<open>mbstowcs\<close> converts it
  and every allocation of the buffer succeeds. \<open>wide_serial\<close> is the converted text.
\<close>

definition serial_conversion_ok :: "host \<Rightarrow> string option \<Rightarrow> bool" where
  "serial_conversion_ok H serial =
     (case serial of
        None \<Rightarrow> True
      | Some s \<Rightarrow> mbstowcs_ret H s \<noteq> None \<and> (\<forall>i. malloc_wserial H i))"

definition wide_serial :: "host \<Rightarrow> string option \<Rightarrow> wstring option" where
  "wide_serial H serial = (case serial of None \<Rightarrow> None | Some s \<Rightarrow> mbstowcs_ret H s)"

text \<open>
  A session that can transfer: the backend data holds an open handle, the packet
  buffer is allocated with \<open>packet_buffer_size\<close> bytes, one more than \<open>packet_size\<close>, and
  \<open>command\<close> points one byte into it.
\<close>

definition session_ok :: "hid_state \<Rightarrow> cmsis_dap \<Rightarrow> hid_device \<Rightarrow> uint8_t list \<Rightarrow> bool" where
  "session_ok W dap h buf =
     (bdata dap = Some \<lparr>dev_handle = Some h\<rparr> \<and> h \<in> set (open_devices W)
      \<and> packet_buffer dap = Some buf
      \<and> length buf = unat (packet_buffer_size dap)
      \<and> unat (packet_buffer_size dap) = unat (packet_size dap) + 1
      \<and> command dap = Some 1)"

text \<open>The relation between the two sizes of the session.\<close>

definition size_relation :: "cmsis_dap \<Rightarrow> bool" where
  "size_relation dap = (packet_buffer_size dap = packet_size dap + REPORT_ID_SIZE)"

subsection \<open>Example values\<close>

definition example_host :: host where
  "example_host =
     \<lparr>hid_init_ret = 0,
      hid_enumerate_ret = [],
      mbstowcs_ret = (\<lambda>s. Some (L s)),
      malloc_wserial = (\<lambda>i. True),
      malloc_bdata = True,
      malloc_packet_buffer = (\<lambda>n. Some (\<lambda>i. 0xAA)),
      hid_open_path_ret = (\<lambda>p. Some 1),
      hid_read_timeout_ret = (\<lambda>h n w. (0, [])),
      hid_write_ret = (\<lambda>h r. of_nat (length r))\<rparr>"

definition example_state :: hid_state where
  "example_state =
     \<lparr>hid_initialized = False, live_enumerations = 0, open_devices = [],
      hid_write_calls = []\<rparr>"

definition example_dap :: cmsis_dap where
  "example_dap =
     \<lparr>bdata = None, packet_size = 0, packet_usable_size = 0, packet_buffer_size = 0,
      packet_buffer = None, command = None, response = None\<rparr>"

definition keyboard :: hid_device_info where
  "keyboard =
     \<lparr>path = ''/dev/hidraw0'', vendor_id = 0x046d, product_id = 0xc31c,
      serial_number = None, product_string = Some (L ''USB Keyboard''),
      interface_number = 0\<rparr>"

definition lpc_link2 :: "c_int \<Rightarrow> hid_device_info" where
  "lpc_link2 ifn =
     \<lparr>path = ''/dev/hidraw1'', vendor_id = 0x1fc9, product_id = 0x0090,
      serial_number = Some (L ''A000000001''),
      product_string = Some (L ''LPC-LINK2 CMSIS-DAP V5.224''),
      interface_number = ifn\<rparr>"

definition daplink :: hid_device_info where
  "daplink =
     \<lparr>path = ''/dev/hidraw2'', vendor_id = 0x0d28, product_id = 0x0204,
      serial_number = Some (L ''0240''), product_string = Some (L ''DAPLink CMSIS-DAP''),
      interface_number = 3\<rparr>"

definition atmel_ice :: hid_device_info where
  "atmel_ice =
     \<lparr>path = ''/dev/hidraw3'', vendor_id = 0x03eb, product_id = 0x2141,
      serial_number = Some (L ''J41800''), product_string = Some (L ''Atmel-ICE CMSIS-DAP''),
      interface_number = 0\<rparr>"

definition zero_vendor_device :: hid_device_info where
  "zero_vendor_device =
     \<lparr>path = ''/dev/hidraw4'', vendor_id = 0, product_id = 0x0204,
      serial_number = None, product_string = None, interface_number = 0\<rparr>"

text \<open>
  A session with a packet size of 4 on the open handle 1, and the host state to it.
\<close>

definition example_session :: cmsis_dap where
  "example_session =
     \<lparr>bdata = Some \<lparr>dev_handle = Some 1\<rparr>, packet_size = 4, packet_usable_size = 4,
      packet_buffer_size = 5, packet_buffer = Some [0xAA, 1, 2, 3, 4],
      command = Some 1, response = Some 0\<rparr>"

definition example_open_state :: hid_state where
  "example_open_state =
     \<lparr>hid_initialized = True, live_enumerations = 0, open_devices = [1],
      hid_write_calls = []\<rparr>"

section \<open>Properties\<close>

lemmas example_defs = example_host_def example_state_def example_dap_def keyboard_def
  lpc_link2_def daplink_def atmel_ice_def zero_vendor_device_def example_session_def
  example_open_state_def

subsection \<open>The scan of the enumeration\<close>

lemma wcsstr_sublist: "wcsstr hay needle = None \<longleftrightarrow> \<not> sublist needle hay"
  by (induction hay) (auto simp: sublist_Cons_right)

lemma sublist_wcsstr: "sublist needle hay \<longleftrightarrow> wcsstr hay needle \<noteq> None"
  by (simp add: wcsstr_sublist)

lemma vid_pid_loop_char:
  "vid_pid_loop ids d found \<longleftrightarrow> found \<or> (vendor_id d, product_id d) \<in> set (filter_pairs ids)"
  by (induction ids d found rule: vid_pid_loop.induct) (auto simp: filter_pairs_def)

lemma filter_found_char: "filter_found ids d = filter_predicate ids d"
  by (simp add: filter_found_def filter_predicate_def has_marker_def wcsstr_sublist
      vid_pid_loop_char split: option.splits)

lemma device_found_char:
  "device_found ids d \<longleftrightarrow> filter_predicate ids d \<and> \<not> lpc_link2_other_interface d"
  by (auto simp: device_found_def lpc_link2_other_interface_def filter_found_char)

lemma scan_loop_find:
  "serial_conversion_ok H serial \<Longrightarrow>
   scan_loop H ids serial i devs
     = Loop_Done (find (active_predicate ids (wide_serial H serial)) devs)"
proof (induction devs arbitrary: i)
  case Nil
  then show ?case by simp
next
  case (Cons d devs)
  then show ?case
    by (auto simp: device_found_char active_predicate_def serial_predicate_def
        serial_conversion_ok_def wide_serial_def split: option.splits)
qed

lemma find_first:
  "\<forall>x \<in> set pre. \<not> P x \<Longrightarrow> P d \<Longrightarrow> find P (pre @ d # post) = Some d"
  by (induction pre) auto

lemma find_none: "\<forall>x \<in> set xs. \<not> P x \<Longrightarrow> find P xs = None"
  by (induction xs) auto

lemma scan_loop_selected_found:
  "scan_loop H ids serial i devs = Loop_Done (Some d) \<Longrightarrow> device_found ids d"
  by (induction devs arbitrary: i) (auto split: if_splits option.splits)

text \<open>
  Claim C1, as amended. For every enumeration and every filter, with an optional
  serial number whose conversion goes through, the scan selects the first device in
  enumeration order that satisfies the active predicate and stops there, whatever
  follows it. The active predicate is: the product string contains CMSIS-DAP when the
  filter is empty or begins with vendor id 0, equality of (vendor id, product id) with
  a pair of the filter otherwise; in both cases the device is not the adapter
  0x1fc9:0x0090 on an interface other than 0; and the serial number is equal to the
  one asked for when one is given. When no enumerated device satisfies it, the scan
  ends without a device and open returns \<open>ERROR_FAIL\<close> with no handle opened.
\<close>

theorem first_match_selected:
  "serial_conversion_ok H serial \<longrightarrow>
     ((\<forall>x \<in> set pre. \<not> active_predicate ids (wide_serial H serial) x)
        \<and> active_predicate ids (wide_serial H serial) d
      \<longrightarrow> scan_loop H ids serial 0 (pre @ d # post) = Loop_Done (Some d))
     \<and> ((\<forall>x \<in> set (hid_enumerate_ret H). \<not> active_predicate ids (wide_serial H serial) x)
      \<longrightarrow> scan_loop H ids serial 0 (hid_enumerate_ret H) = Loop_Done None
          \<and> (\<exists>W'. cmsis_dap_hid_open H W dap ids serial = Returns (Inl ERROR_FAIL, W', dap)
                   \<and> open_devices W' = open_devices W))"
proof (intro impI conjI)
  assume ok: "serial_conversion_ok H serial"
  {
    assume "(\<forall>x \<in> set pre. \<not> active_predicate ids (wide_serial H serial) x)
        \<and> active_predicate ids (wide_serial H serial) d"
    then show "scan_loop H ids serial 0 (pre @ d # post) = Loop_Done (Some d)"
      by (simp add: scan_loop_find [OF ok] find_first)
  }
  {
    assume none: "\<forall>x \<in> set (hid_enumerate_ret H).
        \<not> active_predicate ids (wide_serial H serial) x"
    then show scan: "scan_loop H ids serial 0 (hid_enumerate_ret H) = Loop_Done None"
      by (simp add: scan_loop_find [OF ok] find_none)
    show "\<exists>W'. cmsis_dap_hid_open H W dap ids serial = Returns (Inl ERROR_FAIL, W', dap)
                   \<and> open_devices W' = open_devices W"
      by (simp add: cmsis_dap_hid_open_def scan)
  }
qed

theorem first_match_selected_witness:
  "scan_loop (example_host\<lparr>hid_enumerate_ret := [keyboard, lpc_link2 1]\<rparr>) [] (Some ''0240'') 0
      [keyboard, lpc_link2 1, daplink, atmel_ice] = Loop_Done (Some daplink)
   \<and> (\<exists>W'. cmsis_dap_hid_open (example_host\<lparr>hid_enumerate_ret := [keyboard, lpc_link2 1]\<rparr>)
              example_state example_dap [] (Some ''0240'')
            = Returns (Inl ERROR_FAIL, W', example_dap)
          \<and> open_devices W' = open_devices example_state)"
proof -
  let ?H = "example_host\<lparr>hid_enumerate_ret := [keyboard, lpc_link2 1]\<rparr>"
  let ?P = "active_predicate [] (wide_serial ?H (Some ''0240''))"
  have ok: "serial_conversion_ok ?H (Some ''0240'')"
    by (simp add: serial_conversion_ok_def example_defs)
  have ws: "wide_serial ?H (Some ''0240'') = Some (L ''0240'')"
    by (simp add: wide_serial_def example_defs)
  have k: "\<not> ?P keyboard"
    unfolding ws
    by (simp add: active_predicate_def filter_predicate_def first_vid_def has_marker_def
        sublist_wcsstr example_defs L_def)
  have l: "\<not> ?P (lpc_link2 1)"
    unfolding ws by (simp add: active_predicate_def lpc_link2_other_interface_def example_defs)
  have d: "?P daplink"
    unfolding ws
    by (simp add: active_predicate_def filter_predicate_def first_vid_def has_marker_def
        sublist_wcsstr lpc_link2_other_interface_def serial_predicate_def example_defs L_def)
  have pre: "\<forall>x \<in> set [keyboard, lpc_link2 1]. \<not> ?P x"
    using k l by simp
  have enum: "hid_enumerate_ret ?H = [keyboard, lpc_link2 1]"
    by simp
  have app: "[keyboard, lpc_link2 1] @ daplink # [atmel_ice]
      = [keyboard, lpc_link2 1, daplink, atmel_ice]"
    by simp
  from first_match_selected
    [where H = ?H and serial = "Some ''0240''" and pre = "[keyboard, lpc_link2 1]"
      and ids = "[]" and d = daplink and post = "[atmel_ice]" and W = example_state
      and dap = example_dap]
    ok pre d
  show ?thesis
    unfolding enum app by blast
qed

text \<open>
  The claim as first stated leaves out two things the code does. The adapter
  0x1fc9:0x0090 on interface 1 carries the marker in its product string and comes
  first, yet with an empty filter and no serial number the scan passes over it and
  selects the device after it. And with the filter (0, 0x0204) a device with exactly
  these ids and no product string is not selected: \<open>vids[0]\<close> is 0, so the product
  string is what counts.
\<close>

theorem first_match_counterexample:
  "has_marker (lpc_link2 1)
   \<and> scan_loop example_host [] None 0 [lpc_link2 1, daplink] = Loop_Done (Some daplink)
   \<and> (vendor_id zero_vendor_device, product_id zero_vendor_device) \<in> set [(0, 0x0204)]
   \<and> scan_loop example_host [(0, 0x0204)] None 0 [zero_vendor_device] = Loop_Done None"
  by (simp add: has_marker_def sublist_wcsstr example_defs L_def device_found_def
      filter_found_def first_vid_def)

text \<open>
  Claim C5. For every enumeration and every filter, a device with vendor id 0x1fc9
  and product id 0x0090 whose interface number is not 0 is never the device the scan
  selects, also when the filter lists that pair. On interface 0 the check changes
  nothing: the device is found exactly when the filter finds it, and the scan selects
  it when it satisfies the filter's predicate and no serial number is asked for.
\<close>

theorem lpc_link2_interface_rule:
  "(scan_loop H ids serial i devs = Loop_Done (Some d)
      \<longrightarrow> \<not> (vendor_id d = 0x1fc9 \<and> product_id d = 0x0090 \<and> interface_number d \<noteq> 0))
   \<and> (interface_number e = 0 \<longrightarrow> device_found ids e = filter_found ids e)
   \<and> (interface_number e = 0 \<and> filter_predicate ids e
      \<longrightarrow> scan_loop H ids None i (e # rest) = Loop_Done (Some e))"
proof (intro conjI impI)
  assume "scan_loop H ids serial i devs = Loop_Done (Some d)"
  then have "device_found ids d"
    by (rule scan_loop_selected_found)
  then show "\<not> (vendor_id d = 0x1fc9 \<and> product_id d = 0x0090 \<and> interface_number d \<noteq> 0)"
    by (auto simp: device_found_def split: if_splits)
next
  assume "interface_number e = 0"
  then show "device_found ids e = filter_found ids e"
    by (simp add: device_found_def)
next
  assume "interface_number e = 0 \<and> filter_predicate ids e"
  then show "scan_loop H ids None i (e # rest) = Loop_Done (Some e)"
    by (simp add: device_found_def filter_found_char)
qed

theorem lpc_link2_interface_rule_witness:
  "scan_loop example_host [(0x1fc9, 0x0090)] None 0 [lpc_link2 1, lpc_link2 0, daplink]
     = Loop_Done (Some (lpc_link2 0))
   \<and> interface_number (lpc_link2 0) = 0
   \<and> device_found [(0x1fc9, 0x0090)] (lpc_link2 0)
   \<and> \<not> device_found [(0x1fc9, 0x0090)] (lpc_link2 1)
   \<and> scan_loop example_host [(0x1fc9, 0x0090)] None 1 [lpc_link2 0, daplink]
     = Loop_Done (Some (lpc_link2 0))"
proof -
  let ?ids = "[(0x1fc9, 0x0090)] :: id_list"
  have scan: "scan_loop example_host ?ids None 0 [lpc_link2 1, lpc_link2 0, daplink]
      = Loop_Done (Some (lpc_link2 0))"
    by (simp add: device_found_def filter_found_def first_vid_def example_defs)
  have ifn: "interface_number (lpc_link2 0) = 0"
    by (simp add: lpc_link2_def)
  have pred: "filter_predicate ?ids (lpc_link2 0)"
    by (simp add: filter_predicate_def first_vid_def filter_pairs_def lpc_link2_def)
  have ff: "filter_found ?ids (lpc_link2 0)"
    by (simp add: filter_found_def first_vid_def lpc_link2_def)
  have other: "\<not> device_found ?ids (lpc_link2 1)"
    by (simp add: device_found_def lpc_link2_def)
  from lpc_link2_interface_rule
    [where H = example_host and ids = ?ids and serial = None and i = 1
      and devs = "[lpc_link2 0, daplink]" and d = "lpc_link2 0" and e = "lpc_link2 0"
      and rest = "[daplink]"]
    scan ifn pred ff other
  show ?thesis by blast
qed

subsection \<open>Report size lookup\<close>

lemma quirk_loop_stops_at_zero_vid:
  "vid s = 0 \<Longrightarrow> quirk_loop (xs @ s # ys) tv tp ps = quirk_loop xs tv tp ps"
  by (induction xs arbitrary: ps) auto

lemma quirk_loop_no_match:
  "\<forall>q \<in> set qs. vid q = tv \<longrightarrow> pid q \<noteq> tp \<Longrightarrow> quirk_loop qs tv tp ps = ps"
  by (induction qs arbitrary: ps) auto

lemma quirk_loop_range:
  "quirk_loop qs tv tp ps = ps \<or> quirk_loop qs tv tp ps \<in> report_size ` {q \<in> set qs. vid q \<noteq> 0}"
proof (induction qs arbitrary: ps)
  case Nil
  then show ?case by simp
next
  case (Cons q qs)
  show ?case
  proof (cases "vid q \<noteq> 0")
    case False
    then show ?thesis by simp
  next
    case True
    let ?ps = "if vid q = tv \<and> pid q = tp then report_size q else ps"
    from Cons.IH [of ?ps] True show ?thesis
      by (auto split: if_splits)
  qed
qed

lemma lookup_report_size_values:
  "lookup_report_size tv tp = 64 \<or> lookup_report_size tv tp = 512"
  using quirk_loop_range [of report_size_quirks tv tp 64]
  unfolding lookup_report_size_def
  by (auto simp: report_size_quirks_def)

lemma unat_lookup_succ:
  "unat (lookup_report_size tv tp + 1) = unat (lookup_report_size tv tp) + 1"
  using lookup_report_size_values [of tv tp] by auto

text \<open>
  Claim C2. For every (vendor id, product id) pair of an entry of the table before the
  sentinel, the lookup made during open yields the report size of that entry; for every
  pair that no entry of the table carries, the packet size is the default of 64 bytes;
  the scan ends at the sentinel, the last entry, whose ids are both zero: the scan of
  the table is the scan of the entries before it, and the sentinel's own report size 0
  is never the result for the pair (0, 0).
\<close>

theorem report_size_lookup:
  "(\<forall>q \<in> set (butlast report_size_quirks).
       lookup_report_size (vid q) (pid q) = report_size q)
   \<and> ((\<forall>q \<in> set report_size_quirks. vid q = tv \<longrightarrow> pid q \<noteq> tp)
        \<longrightarrow> lookup_report_size tv tp = 64)
   \<and> vid (last report_size_quirks) = 0 \<and> pid (last report_size_quirks) = 0
   \<and> quirk_loop report_size_quirks tv tp ps
        = quirk_loop (butlast report_size_quirks) tv tp ps
   \<and> lookup_report_size 0 0 = 64"
proof -
  have present: "\<forall>q \<in> set (butlast report_size_quirks).
      lookup_report_size (vid q) (pid q) = report_size q"
    by (simp add: report_size_quirks_def lookup_report_size_def)
  have absent: "(\<forall>q \<in> set report_size_quirks. vid q = tv \<longrightarrow> pid q \<noteq> tp)
      \<longrightarrow> lookup_report_size tv tp = 64"
    unfolding lookup_report_size_def by (simp add: quirk_loop_no_match)
  have sentinel: "vid (last report_size_quirks) = 0 \<and> pid (last report_size_quirks) = 0"
    by (simp add: report_size_quirks_def)
  have split: "report_size_quirks = butlast report_size_quirks @ last report_size_quirks # []"
    by (simp add: report_size_quirks_def)
  have stops: "quirk_loop report_size_quirks tv tp ps
      = quirk_loop (butlast report_size_quirks) tv tp ps"
    using sentinel quirk_loop_stops_at_zero_vid
      [of "last report_size_quirks" "butlast report_size_quirks" "[]" tv tp ps] split
    by simp
  have zero: "lookup_report_size 0 0 = 64"
    by (simp add: report_size_quirks_def lookup_report_size_def)
  from present absent sentinel stops zero show ?thesis by blast
qed

theorem report_size_lookup_witness:
  "lookup_report_size 0x03eb 0x2141 = 512 \<and> lookup_report_size 0x0d28 0x0204 = 64"
proof -
  let ?q = "\<lparr>vid = 0x03eb, pid = 0x2141, report_size = 512\<rparr> :: cmsis_dap_report_size"
  have mem: "?q \<in> set (butlast report_size_quirks)"
    by (simp add: report_size_quirks_def)
  have none: "\<forall>q \<in> set report_size_quirks. vid q = 0x0d28 \<longrightarrow> pid q \<noteq> 0x0204"
    by (simp add: report_size_quirks_def)
  from report_size_lookup [of "0x0d28" "0x0204" 64] mem none
  have "lookup_report_size (vid ?q) (pid ?q) = report_size ?q"
    and "lookup_report_size 0x0d28 0x0204 = 64"
    by blast+
  then show ?thesis by simp
qed

subsection \<open>Write\<close>

text \<open>Signed and unsigned readings of a 32-bit word.\<close>

lemma sint_bounds32: "- 2147483648 \<le> sint (t::32 word) \<and> sint t < 2147483648"
  using sint_ge [of t] sint_lt [of t] by simp

lemma uint_of_sint32:
  "uint (t::32 word) = (if 0 \<le> sint t then sint t else sint t + 4294967296)"
proof -
  have u: "uint t = sint t mod 4294967296"
    by (simp add: uint_sint take_bit_eq_mod)
  show ?thesis
  proof (cases "0 \<le> sint t")
    case True
    with sint_bounds32 [of t] have "sint t mod 4294967296 = sint t"
      by (simp add: mod_pos_pos_trivial)
    with u True show ?thesis by simp
  next
    case False
    have "0 \<le> sint t + 4294967296" and "sint t + 4294967296 < 4294967296"
      using False sint_bounds32 [of t] by linarith+
    then have "(sint t + 4294967296) mod 4294967296 = sint t + 4294967296"
      by (rule mod_pos_pos_trivial)
    moreover have "(sint t + 4294967296) mod 4294967296 = sint t mod 4294967296"
      by (rule mod_add_self2)
    ultimately have "sint t mod 4294967296 = sint t + 4294967296"
      by simp
    with u False show ?thesis by simp
  qed
qed

lemma unat_of_sint32:
  "int (unat (t::32 word)) = (if 0 \<le> sint t then sint t else sint t + 4294967296)"
  by (rule uint_of_sint32 [of t, unfolded uint_nat])

lemma unat_bound32: "unat (w::32 word) < 4294967296"
  using unsigned_less [of w, where 'a = nat] by simp

lemma unat_sub32:
  "unat ((a::32 word) - b) =
     (if unat b \<le> unat a then unat a - unat b else unat a + 4294967296 - unat b)"
  using unat_sub_if' [of a b] by simp


lemma sint_minus1_eq: "sint (t::32 word) = - 1 \<Longrightarrow> t = - 1"
  using word_eq_iff_signed [of t "- 1", where 'a = int] by simp

lemma nat_sint_nonneg: "0 \<le> sint (t::32 word) \<Longrightarrow> nat (sint t) = unat t"
  using unat_of_sint32 [of t] by (simp del: of_nat_unat)

lemma unat_sint_neg: "sint (t::32 word) < 0 \<Longrightarrow> int (unat t) = sint t + 4294967296"
  using unat_of_sint32 [of t] by (simp del: of_nat_unat)

lemma le_uint_unat: "0 \<le> sint (t::32 word) \<Longrightarrow> sint t \<le> uint (ps::32 word) \<longleftrightarrow> unat t \<le> unat ps"
proof -
  assume a: "0 \<le> sint t"
  have "sint t = int (unat t)" using nat_sint_nonneg [OF a] a by linarith
  then show ?thesis by (simp add: uint_nat del: of_nat_unat)
qed

lemma pad_in_range:
  "0 \<le> sint txlen \<Longrightarrow> sint txlen \<le> uint ps \<Longrightarrow>
   unat (ps - txlen) = unat ps - nat (sint txlen) \<and> nat (sint txlen) \<le> unat ps"
  for ps txlen :: "32 word"
  by (simp add: nat_sint_nonneg le_uint_unat unat_sub32)

lemma pad_wraps:
  "uint ps < sint txlen \<Longrightarrow>
   unat (ps - txlen) = unat ps + 4294967296 - nat (sint txlen) \<and> unat ps < nat (sint txlen)"
  for ps txlen :: "32 word"
proof -
  assume a: "uint ps < sint txlen"
  then have nn: "0 \<le> sint txlen" using uint_ge_0 [of ps] by linarith
  from a have "\<not> sint txlen \<le> uint ps" by simp
  then have "\<not> unat txlen \<le> unat ps" using le_uint_unat [OF nn, of ps] by simp
  then show ?thesis by (simp add: nat_sint_nonneg [OF nn] unat_sub32)
qed


text \<open>The fill and the call of \<open>hid_write\<close>.\<close>

lemma memset_length: "memset buf start c n = Some buf' \<Longrightarrow> length buf' = length buf"
  by (auto simp: memset_def split: if_splits)

lemma memset_defined_iff:
  "memset buf start c n \<noteq> None \<longleftrightarrow> 0 \<le> start \<and> start + int n \<le> int (length buf)"
  by (simp add: memset_def)

lemma write_after_memset:
  assumes ok: "session_ok W dap h buf"
    and m: "memset (buf[0 := 0]) (1 + sint txlen) 0 (unat (packet_size dap - txlen)) = Some buf'"
  shows "cmsis_dap_hid_write H W dap txlen timeout_ms =
           Returns (if hid_write_ret H h buf' = - 1 then Inl ERROR_FAIL
                    else Inr (hid_write_ret H h buf'),
                    W\<lparr>hid_write_calls := hid_write_calls W @ [(h, buf')]\<rparr>,
                    dap\<lparr>packet_buffer := Some buf'\<rparr>)
         \<and> length buf' = unat (packet_buffer_size dap)"
proof -
  from m have len: "length buf' = length buf"
    by (simp add: memset_length)
  with ok have len': "length buf' = unat (packet_buffer_size dap)"
    by (simp add: session_ok_def)
  from ok have pos: "length buf \<noteq> 0"
    by (simp add: session_ok_def)
  from ok m pos len' show ?thesis
    by (simp add: cmsis_dap_hid_write_def session_ok_def Let_def)
qed

lemma write_without_memset:
  assumes ok: "session_ok W dap h buf"
    and m: "memset (buf[0 := 0]) (1 + sint txlen) 0 (unat (packet_size dap - txlen)) = None"
  shows "cmsis_dap_hid_write H W dap txlen timeout_ms = Undefined"
  using ok m by (simp add: cmsis_dap_hid_write_def session_ok_def)

lemma memset_in_range:
  assumes len: "length buf = Suc P" and t: "T \<le> P"
  shows "memset (buf[0 := 0]) (1 + int T) 0 (P - T)
           = Some (0 # take T (tl buf) @ replicate (P - T) 0)"
proof -
  from len obtain b bs where buf: "buf = b # bs" and bs: "length bs = P"
    by (cases buf) auto
  have n: "nat (1 + int T) = Suc T" by simp
  show ?thesis
    unfolding memset_def n using t bs by (simp add: buf)
qed

lemma memset_fill:
  assumes len: "length b = Suc P" and t: "T \<le> P"
  shows "memset b (1 + int T) 0 (P - T) = Some (take (Suc T) b @ replicate (P - T) 0)"
proof -
  have n: "nat (1 + int T) = Suc T" by simp
  show ?thesis
    unfolding memset_def n using t len by simp
qed

lemma unat_succ32: "unat (ps::32 word) + 1 < 4294967296 \<Longrightarrow> unat (ps + 1) = unat ps + 1"
  using unat_add_lem [of ps 1] by simp

lemma example_session_ok: "session_ok example_open_state example_session 1 [0xAA, 1, 2, 3, 4]"
  by (simp add: session_ok_def example_defs)


text \<open>
  Claim C3. For every session that can transfer (the buffer is allocated with
  \<open>packet_buffer_size = packet_size + 1\<close> bytes) and every payload length from 0 to
  \<open>packet_size\<close>, write returns, and the buffer it leaves and passes to \<open>hid_write\<close> is:
  byte 0 set to 0, the payload bytes as they were, and \<open>packet_size - payload length\<close>
  zero bytes from \<open>command + payload length\<close> to the end. The report passed has
  exactly \<open>packet_buffer_size\<close> bytes, and unless the transport answers \<open>-1\<close> its count
  of written bytes is what write returns.
\<close>

theorem write_pads_full_report:
  assumes ok: "session_ok W dap h buf"
    and lo: "0 \<le> sint txlen" and hi: "sint txlen \<le> uint (packet_size dap)"
  shows "let report = 0 # take (nat (sint txlen)) (tl buf)
                        @ replicate (unat (packet_size dap) - nat (sint txlen)) 0;
             retval = hid_write_ret H h report
         in cmsis_dap_hid_write H W dap txlen timeout_ms =
              Returns (if retval = - 1 then Inl ERROR_FAIL else Inr retval,
                       W\<lparr>hid_write_calls := hid_write_calls W @ [(h, report)]\<rparr>,
                       dap\<lparr>packet_buffer := Some report\<rparr>)
            \<and> length report = unat (packet_buffer_size dap)"
proof -
  let ?T = "nat (sint txlen)" and ?P = "unat (packet_size dap)"
  from pad_in_range [OF lo hi]
  have n: "unat (packet_size dap - txlen) = ?P - ?T" and t: "?T \<le> ?P"
    by simp_all
  from ok have len: "length buf = Suc ?P"
    by (simp add: session_ok_def)
  from lo have s: "1 + sint txlen = 1 + int ?T" by simp
  have "memset (buf[0 := 0]) (1 + sint txlen) 0 (unat (packet_size dap - txlen))
          = Some (0 # take ?T (tl buf) @ replicate (?P - ?T) 0)"
    unfolding n s by (rule memset_in_range [OF len t])
  from write_after_memset [OF ok this, of H timeout_ms] show ?thesis
    by (simp add: Let_def)
qed


theorem write_pads_full_report_witness:
  "cmsis_dap_hid_write example_host example_open_state example_session 2 0
     = Returns (Inr 5,
                example_open_state\<lparr>hid_write_calls := [(1, [0, 1, 2, 0, 0])]\<rparr>,
                example_session\<lparr>packet_buffer := Some [0, 1, 2, 0, 0]\<rparr>)"
proof -
  have lo: "0 \<le> sint (2 :: c_int)" by simp
  have hi: "sint (2 :: c_int) \<le> uint (packet_size example_session)"
    by (simp add: example_defs)
  have r: "0 # take (nat (sint (2 :: c_int))) (tl [0xAA, 1, 2, 3, 4 :: uint8_t])
             @ replicate (unat (packet_size example_session) - nat (sint (2 :: c_int))) 0
           = [0, 1, 2, 0, 0]"
    by code_simp
  have w: "hid_write_ret example_host 1 [0, 1, 2, 0, 0] = 5"
    by (simp add: example_defs)
  have c: "hid_write_calls example_open_state = []"
    by (simp add: example_defs)
  from write_pads_full_report [OF example_session_ok lo hi, of example_host 0]
  show ?thesis
    unfolding r Let_def w c by simp
qed


text \<open>
  Claim C10, as amended. In a session that can transfer, the fill of write stays inside
  the packet buffer exactly when the payload length is between \<open>-1\<close> and \<open>packet_size\<close>;
  otherwise write has undefined behaviour, and no check in write turns it into an
  error. For a payload length from 0 to \<open>packet_size\<close> the fill length
  \<open>packet_size - payload length\<close> does not wrap and the fill leaves the bytes before
  \<open>command + payload length\<close> as they are and sets those from there through
  \<open>command + packet_size - 1\<close>, the end of the buffer, to zero. A payload length above
  \<open>packet_size\<close> wraps the unsigned fill length to
  \<open>packet_size + 2^32 - payload length\<close>, and write is undefined.
\<close>

theorem write_padding_bounds:
  assumes ok: "session_ok W dap h buf"
  shows "(cmsis_dap_hid_write H W dap txlen timeout_ms \<noteq> Undefined
            \<longleftrightarrow> - 1 \<le> sint txlen \<and> sint txlen \<le> uint (packet_size dap))
   \<and> (0 \<le> sint txlen \<and> sint txlen \<le> uint (packet_size dap) \<longrightarrow>
        unat (packet_size dap - txlen) = unat (packet_size dap) - nat (sint txlen)
        \<and> memset (buf[0 := 0]) (1 + sint txlen) 0 (unat (packet_size dap - txlen))
            = Some (take (Suc (nat (sint txlen))) (buf[0 := 0])
                    @ replicate (unat (packet_size dap) - nat (sint txlen)) 0))
   \<and> (uint (packet_size dap) < sint txlen \<longrightarrow>
        unat (packet_size dap - txlen)
          = unat (packet_size dap) + 4294967296 - nat (sint txlen)
        \<and> cmsis_dap_hid_write H W dap txlen timeout_ms = Undefined)"
proof -
  let ?P = "unat (packet_size dap)" and ?T = "nat (sint txlen)"
  let ?m = "memset (buf[0 := 0]) (1 + sint txlen) 0 (unat (packet_size dap - txlen))"
  from ok have len: "length (buf[0 := 0]) = Suc ?P"
    by (simp add: session_ok_def)
  from ok have room: "?P + 1 < 4294967296"
    using unat_bound32 [of "packet_buffer_size dap"] by (simp add: session_ok_def)
  have defined: "cmsis_dap_hid_write H W dap txlen timeout_ms \<noteq> Undefined \<longleftrightarrow> ?m \<noteq> None"
  proof (cases ?m)
    case None
    with write_without_memset [OF ok None, of H timeout_ms] show ?thesis by simp
  next
    case (Some buf')
    with write_after_memset [OF ok Some, of H timeout_ms] show ?thesis by simp
  qed
  have inside: "0 \<le> sint txlen \<and> sint txlen \<le> uint (packet_size dap) \<longrightarrow>
        unat (packet_size dap - txlen) = ?P - ?T
        \<and> ?m = Some (take (Suc ?T) (buf[0 := 0]) @ replicate (?P - ?T) 0)"
  proof
    assume a: "0 \<le> sint txlen \<and> sint txlen \<le> uint (packet_size dap)"
    then have n: "unat (packet_size dap - txlen) = ?P - ?T" and t: "?T \<le> ?P"
      using pad_in_range [of txlen "packet_size dap"] by simp_all
    from a have s: "1 + sint txlen = 1 + int ?T" by simp
    have "?m = Some (take (Suc ?T) (buf[0 := 0]) @ replicate (?P - ?T) 0)"
      unfolding n s by (rule memset_fill [OF len t])
    with n show "unat (packet_size dap - txlen) = ?P - ?T
        \<and> ?m = Some (take (Suc ?T) (buf[0 := 0]) @ replicate (?P - ?T) 0)"
      by simp
  qed
  have above: "uint (packet_size dap) < sint txlen \<longrightarrow>
        unat (packet_size dap - txlen) = ?P + 4294967296 - ?T \<and> ?m = None"
  proof
    assume a: "uint (packet_size dap) < sint txlen"
    from pad_wraps [OF a]
    have n: "unat (packet_size dap - txlen) = ?P + 4294967296 - ?T" and t: "?P < ?T"
      by simp_all
    have tb: "?T < 4294967296"
      using sint_bounds32 [of txlen] by linarith
    from a have nn: "0 \<le> sint txlen" using uint_ge_0 [of "packet_size dap"] by linarith
    have "\<not> (1 + sint txlen + int (?P + 4294967296 - ?T) \<le> int (length (buf[0 := 0])))"
      unfolding len using tb t nn by simp
    then have "?m = None"
      unfolding n by (simp add: memset_def)
    with n show "unat (packet_size dap - txlen) = ?P + 4294967296 - ?T \<and> ?m = None"
      by simp
  qed
  have minus1: "sint txlen = - 1 \<longrightarrow> ?m \<noteq> None"
  proof
    assume a: "sint txlen = - 1"
    then have t: "txlen = - 1" by (rule sint_minus1_eq)
    have "unat (packet_size dap - txlen) = ?P + 1"
      unfolding t using unat_succ32 [OF room] by simp
    then show "?m \<noteq> None"
      using a len by (simp add: memset_def)
  qed
  have below: "sint txlen < - 1 \<longrightarrow> ?m = None"
    by (simp add: memset_def)
  have iff: "?m \<noteq> None \<longleftrightarrow> - 1 \<le> sint txlen \<and> sint txlen \<le> uint (packet_size dap)"
  proof (cases "sint txlen < - 1")
    case True
    with below show ?thesis by simp
  next
    case False
    note nb = this
    show ?thesis
    proof (cases "sint txlen = - 1")
      case True
      have "- 1 \<le> uint (packet_size dap)"
        using uint_ge_0 [of "packet_size dap"] by linarith
      with True minus1 show ?thesis by simp
    next
      case False
      with nb have nn: "0 \<le> sint txlen" by linarith
      show ?thesis
      proof (cases "sint txlen \<le> uint (packet_size dap)")
        case True
        with nn inside have "?m \<noteq> None" by auto
        with True nn show ?thesis by simp
      next
        case False
        with above have "?m = None" by auto
        with False show ?thesis by simp
      qed
    qed
  qed
  have c1: "cmsis_dap_hid_write H W dap txlen timeout_ms \<noteq> Undefined
      \<longleftrightarrow> - 1 \<le> sint txlen \<and> sint txlen \<le> uint (packet_size dap)"
    using defined iff by blast
  have c3: "uint (packet_size dap) < sint txlen \<longrightarrow>
        unat (packet_size dap - txlen) = ?P + 4294967296 - ?T
        \<and> cmsis_dap_hid_write H W dap txlen timeout_ms = Undefined"
    using above defined by blast
  from c1 inside c3 show ?thesis
    by blast
qed


theorem write_padding_bounds_witness:
  "cmsis_dap_hid_write example_host example_open_state example_session 2 0 \<noteq> Undefined
   \<and> unat (packet_size example_session - 2) = 2
   \<and> unat (packet_size example_session - 5) = 4294967295
   \<and> cmsis_dap_hid_write example_host example_open_state example_session 5 0 = Undefined
   \<and> cmsis_dap_hid_write example_host example_open_state example_session (- 2) 0 = Undefined"
proof -
  have ps: "packet_size example_session = 4" by (simp add: example_defs)
  note b = write_padding_bounds [OF example_session_ok, of example_host _ 0]
  have "cmsis_dap_hid_write example_host example_open_state example_session 2 0 \<noteq> Undefined"
    using b [of 2] unfolding ps by simp
  moreover have "unat (packet_size example_session - 2) = 2"
    using b [of 2] unfolding ps by simp
  moreover have "unat (packet_size example_session - 5) = 4294967295
     \<and> cmsis_dap_hid_write example_host example_open_state example_session 5 0 = Undefined"
    using b [of 5] unfolding ps by simp
  moreover have "cmsis_dap_hid_write example_host example_open_state example_session (- 2) 0
      = Undefined"
    using b [of "- 2"] unfolding ps by simp
  ultimately show ?thesis by simp
qed

text \<open>
  The lower bound 0 of the claim as first stated is not needed for the fill to be
  inside the buffer: with the payload length \<open>-1\<close> the fill begins at
  \<open>command - 1\<close>, the first byte of the buffer, its length is \<open>packet_size + 1\<close>, and
  write returns after passing a report of zeros.
\<close>

theorem write_padding_counterexample:
  "sint (- 1 :: c_int) < 0
   \<and> cmsis_dap_hid_write example_host example_open_state example_session (- 1) 0
     = Returns (Inr 5,
                example_open_state\<lparr>hid_write_calls := [(1, [0, 0, 0, 0, 0])]\<rparr>,
                example_session\<lparr>packet_buffer := Some [0, 0, 0, 0, 0]\<rparr>)"
  by code_simp


subsection \<open>Packet buffer\<close>

text \<open>
  Claim C9. For every requested packet size, an allocation that succeeds sets
  \<open>packet_buffer_size\<close> to the requested size plus 1, the report prefix size,
  \<open>packet_size\<close> to the requested size, \<open>command\<close> to one byte after the beginning of
  the buffer and \<open>response\<close> to its beginning; the buffer has \<open>packet_buffer_size\<close>
  bytes. The sizes are \<open>unsigned int\<close> and so is the sum. The relation
  \<open>packet_buffer_size = packet_size + REPORT_ID_SIZE\<close> holds after the allocation, and
  read, write and cancel-all keep it whenever they return.
\<close>

theorem alloc_establishes_sizes:
  "(cmsis_dap_hid_alloc H dap pkt_sz = (Inr (), dap1) \<longrightarrow>
      packet_buffer_size dap1 = pkt_sz + 1 \<and> packet_size dap1 = pkt_sz
      \<and> command dap1 = Some 1 \<and> response dap1 = Some 0
      \<and> (\<exists>buf. packet_buffer dap1 = Some buf \<and> length buf = unat (pkt_sz + 1))
      \<and> size_relation dap1)
   \<and> (size_relation dap \<and> cmsis_dap_hid_read H W dap tmo blocking = Returns (r2, W2, dap2)
      \<longrightarrow> size_relation dap2)
   \<and> (size_relation dap \<and> cmsis_dap_hid_write H W dap txlen tmo = Returns (r3, W3, dap3)
      \<longrightarrow> size_relation dap3)
   \<and> (size_relation dap \<longrightarrow> size_relation (cmsis_dap_hid_cancel_all dap))"
proof (intro conjI impI)
  assume a: "cmsis_dap_hid_alloc H dap pkt_sz = (Inr (), dap1)"
  then obtain content where
    d: "dap1 = dap\<lparr>packet_buffer := Some (map content [0 ..< unat (pkt_sz + 1)]),
                 packet_size := pkt_sz, packet_usable_size := pkt_sz,
                 packet_buffer_size := pkt_sz + 1, command := Some 1, response := Some 0\<rparr>"
    by (auto simp: cmsis_dap_hid_alloc_def REPORT_ID_SIZE_def Let_def split: option.splits)
  show "packet_buffer_size dap1 = pkt_sz + 1" by (simp add: d)
  show "packet_size dap1 = pkt_sz" by (simp add: d)
  show "command dap1 = Some 1" by (simp add: d)
  show "response dap1 = Some 0" by (simp add: d)
  show "\<exists>buf. packet_buffer dap1 = Some buf \<and> length buf = unat (pkt_sz + 1)" by (simp add: d)
  show "size_relation dap1" by (simp add: d size_relation_def REPORT_ID_SIZE_def)
next
  assume "size_relation dap \<and> cmsis_dap_hid_read H W dap tmo blocking = Returns (r2, W2, dap2)"
  then show "size_relation dap2"
    by (auto simp: cmsis_dap_hid_read_def size_relation_def Let_def
        split: option.splits if_splits prod.splits)
next
  assume "size_relation dap \<and> cmsis_dap_hid_write H W dap txlen tmo = Returns (r3, W3, dap3)"
  then show "size_relation dap3"
    by (auto simp: cmsis_dap_hid_write_def size_relation_def Let_def
        split: option.splits if_splits)
next
  assume "size_relation dap"
  then show "size_relation (cmsis_dap_hid_cancel_all dap)"
    by (simp add: cmsis_dap_hid_cancel_all_def)
qed

theorem alloc_establishes_sizes_witness:
  "fst (cmsis_dap_hid_alloc example_host example_dap 64) = Inr ()
   \<and> packet_buffer_size (snd (cmsis_dap_hid_alloc example_host example_dap 64)) = 65
   \<and> packet_size (snd (cmsis_dap_hid_alloc example_host example_dap 64)) = 64
   \<and> size_relation (snd (cmsis_dap_hid_alloc example_host example_dap 64))
   \<and> size_relation (example_session\<lparr>packet_buffer := Some [0, 1, 2, 0, 0]\<rparr>)
   \<and> size_relation (example_session\<lparr>packet_buffer := Some [9, 8, 7, 3, 4]\<rparr>)
   \<and> size_relation (cmsis_dap_hid_cancel_all example_session)"
proof -
  let ?H = "example_host\<lparr>hid_read_timeout_ret := (\<lambda>h n w. (3, [9, 8, 7]))\<rparr>"
  let ?d = "snd (cmsis_dap_hid_alloc example_host example_dap 64)"
  have ok: "fst (cmsis_dap_hid_alloc example_host example_dap 64) = Inr ()"
    by (simp add: cmsis_dap_hid_alloc_def example_defs Let_def)
  then have a: "cmsis_dap_hid_alloc example_host example_dap 64 = (Inr (), ?d)"
    by (metis prod.collapse)
  have s: "size_relation example_session"
    by (simp add: size_relation_def REPORT_ID_SIZE_def example_defs)
  have w: "cmsis_dap_hid_write example_host example_open_state example_session 2 0
      = Returns (Inr 5, example_open_state\<lparr>hid_write_calls := [(1, [0, 1, 2, 0, 0])]\<rparr>,
                 example_session\<lparr>packet_buffer := Some [0, 1, 2, 0, 0]\<rparr>)"
    by code_simp
  have r: "cmsis_dap_hid_read ?H example_open_state example_session 100 CMSIS_DAP_BLOCKING
      = Returns (Inr 3, example_open_state,
                 example_session\<lparr>packet_buffer := Some [9, 8, 7, 3, 4]\<rparr>)"
    by code_simp
  have "packet_buffer_size ?d = 64 + 1 \<and> packet_size ?d = 64 \<and> size_relation ?d"
    using alloc_establishes_sizes [where H = example_host and dap = example_dap
        and pkt_sz = 64 and ?dap1.0 = ?d] a
    by blast
  moreover have "size_relation (example_session\<lparr>packet_buffer := Some [0, 1, 2, 0, 0]\<rparr>)"
    using alloc_establishes_sizes [where H = example_host and dap = example_session
        and W = example_open_state and txlen = 2 and tmo = 0] s w
    by blast
  moreover have "size_relation (example_session\<lparr>packet_buffer := Some [9, 8, 7, 3, 4]\<rparr>)"
    using alloc_establishes_sizes [where H = ?H and dap = example_session
        and W = example_open_state and tmo = 100 and blocking = CMSIS_DAP_BLOCKING] s r
    by blast
  moreover have "size_relation (cmsis_dap_hid_cancel_all example_session)"
    using alloc_establishes_sizes [where dap = example_session] s
    by blast
  ultimately show ?thesis using ok by simp
qed


subsection \<open>Read\<close>

text \<open>
  Claim C4, as amended. For every timeout and blocking mode, in a session that can
  transfer, read returns. It asks the transport to wait 0 milliseconds in non-blocking
  mode and the timeout given in blocking mode. Whatever the transport answers, the
  answer 0 is returned as \<open>ERROR_TIMEOUT_REACHED\<close>, the answer \<open>-1\<close>, the error
  value of \<open>hid_read_timeout\<close>, as \<open>ERROR_FAIL\<close>, and every other answer as it is: a
  positive answer is the number of bytes read, and a negative answer other than \<open>-1\<close>
  is passed on unchanged as well.
\<close>

theorem read_result:
  assumes ok: "session_ok W dap h buf"
    and rd: "hid_read_timeout_ret H h (unat (packet_buffer_size dap))
               (if blocking = CMSIS_DAP_NON_BLOCKING then 0 else transfer_timeout_ms)
             = (retval, data)"
  shows "cmsis_dap_hid_read H W dap transfer_timeout_ms blocking
           = Returns (if retval = 0 then Inl ERROR_TIMEOUT_REACHED
                      else if retval = - 1 then Inl ERROR_FAIL
                      else Inr retval,
                      W,
                      dap\<lparr>packet_buffer :=
                            Some (take (unat (packet_buffer_size dap)) data
                                  @ drop (length (take (unat (packet_buffer_size dap)) data))
                                      buf)\<rparr>)
         \<and> (0 < sint retval \<longrightarrow> retval \<noteq> 0 \<and> retval \<noteq> - 1)"
proof -
  have pos: "0 < sint retval \<longrightarrow> retval \<noteq> 0 \<and> retval \<noteq> - 1"
    by auto
  from ok rd have "cmsis_dap_hid_read H W dap transfer_timeout_ms blocking
           = Returns (if retval = 0 then Inl ERROR_TIMEOUT_REACHED
                      else if retval = - 1 then Inl ERROR_FAIL
                      else Inr retval,
                      W,
                      dap\<lparr>packet_buffer :=
                            Some (take (unat (packet_buffer_size dap)) data
                                  @ drop (length (take (unat (packet_buffer_size dap)) data))
                                      buf)\<rparr>)"
    by (auto simp: cmsis_dap_hid_read_def session_ok_def Let_def)
  with pos show ?thesis by simp
qed

theorem read_result_witness:
  "cmsis_dap_hid_read
       (example_host\<lparr>hid_read_timeout_ret :=
          (\<lambda>h n w. if w = 0 then (0, []) else if w = 100 then (3, [9, 8, 7]) else (- 1, []))\<rparr>)
       example_open_state example_session 100 CMSIS_DAP_NON_BLOCKING
     = Returns (Inl ERROR_TIMEOUT_REACHED, example_open_state,
                example_session\<lparr>packet_buffer := Some [0xAA, 1, 2, 3, 4]\<rparr>)
   \<and> cmsis_dap_hid_read
       (example_host\<lparr>hid_read_timeout_ret :=
          (\<lambda>h n w. if w = 0 then (0, []) else if w = 100 then (3, [9, 8, 7]) else (- 1, []))\<rparr>)
       example_open_state example_session 100 CMSIS_DAP_BLOCKING
     = Returns (Inr 3, example_open_state,
                example_session\<lparr>packet_buffer := Some [9, 8, 7, 3, 4]\<rparr>)
   \<and> cmsis_dap_hid_read
       (example_host\<lparr>hid_read_timeout_ret :=
          (\<lambda>h n w. if w = 0 then (0, []) else if w = 100 then (3, [9, 8, 7]) else (- 1, []))\<rparr>)
       example_open_state example_session 7 CMSIS_DAP_BLOCKING
     = Returns (Inl ERROR_FAIL, example_open_state,
                example_session\<lparr>packet_buffer := Some [0xAA, 1, 2, 3, 4]\<rparr>)"
proof -
  let ?H = "example_host\<lparr>hid_read_timeout_ret :=
          (\<lambda>h n w. if w = 0 then (0, []) else if w = 100 then (3, [9, 8, 7]) else (- 1, []))\<rparr>"
  have n: "unat (packet_buffer_size example_session) = 5"
    by (simp add: example_defs)
  have rd1: "hid_read_timeout_ret ?H 1 (unat (packet_buffer_size example_session))
      (if CMSIS_DAP_NON_BLOCKING = CMSIS_DAP_NON_BLOCKING then 0 else 100) = (0, [])"
    by simp
  have rd2: "hid_read_timeout_ret ?H 1 (unat (packet_buffer_size example_session))
      (if CMSIS_DAP_BLOCKING = CMSIS_DAP_NON_BLOCKING then 0 else 100) = (3, [9, 8, 7])"
    by simp
  have rd3: "hid_read_timeout_ret ?H 1 (unat (packet_buffer_size example_session))
      (if CMSIS_DAP_BLOCKING = CMSIS_DAP_NON_BLOCKING then 0 else 7) = (- 1, [])"
    by simp
  from read_result [OF example_session_ok rd1]
    read_result [OF example_session_ok rd2]
    read_result [OF example_session_ok rd3]
  show ?thesis
    unfolding n by simp
qed

text \<open>
  The claim as first stated has every negative answer of the transport returned as an
  error. The code compares the answer with \<open>-1\<close> only: the answer \<open>-2\<close> is negative
  and is returned as it is, not as \<open>ERROR_FAIL\<close>.
\<close>

theorem read_result_counterexample:
  "sint (- 2 :: c_int) < 0
   \<and> cmsis_dap_hid_read
       (example_host\<lparr>hid_read_timeout_ret := (\<lambda>h n w. (- 2, []))\<rparr>)
       example_open_state example_session 100 CMSIS_DAP_BLOCKING
     = Returns (Inr (- 2), example_open_state,
                example_session\<lparr>packet_buffer := Some [0xAA, 1, 2, 3, 4]\<rparr>)"
  by code_simp



subsection \<open>Open\<close>

text \<open>
  A successful open leaves a session that can transfer, with a packet size of 64 or
  512 bytes, and has given the enumeration back.
\<close>

lemma open_establishes_session:
  assumes "cmsis_dap_hid_open H W dap ids serial = Returns (Inr (), W', dap')"
  shows "(\<exists>h buf. session_ok W' dap' h buf)
    \<and> (packet_size dap' = 64 \<or> packet_size dap' = 512)
    \<and> live_enumerations W' = live_enumerations W"
  using assms
  by (auto simp: cmsis_dap_hid_open_def open_device_def cmsis_dap_hid_alloc_def
      cmsis_dap_hid_close_def cmsis_dap_hid_free_def Let_def REPORT_ID_SIZE_def
      session_ok_def unat_lookup_succ
      split: if_splits scan_exit.splits option.splits)
    (use lookup_report_size_values in blast)+

text \<open>
  Claim C6. When open has selected a device and opened its handle, and the allocation
  of the packet buffer then fails, open returns \<open>ERROR_FAIL\<close> with the handle closed
  again: the open handles are the ones open before, the backend data is freed, and the
  enumeration is given back.
\<close>

theorem alloc_failure_closes_handle:
  assumes init: "hid_init_ret H = 0"
    and scan: "scan_loop H ids serial 0 (hid_enumerate_ret H) = Loop_Done (Some d)"
    and nz: "vendor_id d \<noteq> 0 \<or> product_id d \<noteq> 0"
    and bd: "malloc_bdata H"
    and op: "hid_open_path_ret H (path d) = Some h"
    and nomem: "malloc_packet_buffer H
                  (unat (lookup_report_size (vendor_id d) (product_id d) + REPORT_ID_SIZE)) = None"
  shows "\<exists>W' dap'. cmsis_dap_hid_open H W dap ids serial = Returns (Inl ERROR_FAIL, W', dap')
           \<and> open_devices W' = open_devices W
           \<and> live_enumerations W' = live_enumerations W
           \<and> bdata dap' = None \<and> packet_buffer dap' = None"
  using assms
  by (auto simp: cmsis_dap_hid_open_def open_device_def cmsis_dap_hid_alloc_def
      cmsis_dap_hid_close_def cmsis_dap_hid_free_def Let_def)

theorem alloc_failure_closes_handle_witness:
  "(\<exists>W' dap'. cmsis_dap_hid_open
         (example_host\<lparr>hid_enumerate_ret := [keyboard, atmel_ice],
                        malloc_packet_buffer := (\<lambda>n. None)\<rparr>)
         example_state example_dap [] None
       = Returns (Inl ERROR_FAIL, W', dap')
     \<and> open_devices W' = open_devices example_state
     \<and> live_enumerations W' = live_enumerations example_state
     \<and> bdata dap' = None \<and> packet_buffer dap' = None)
   \<and> hid_open_path_ret
         (example_host\<lparr>hid_enumerate_ret := [keyboard, atmel_ice],
                        malloc_packet_buffer := (\<lambda>n. None)\<rparr>)
         (path atmel_ice) = Some 1"
proof -
  let ?H = "example_host\<lparr>hid_enumerate_ret := [keyboard, atmel_ice],
                      malloc_packet_buffer := (\<lambda>n. None)\<rparr>"
  have init: "hid_init_ret ?H = 0" by (simp add: example_defs)
  have scan: "scan_loop ?H [] None 0 (hid_enumerate_ret ?H) = Loop_Done (Some atmel_ice)"
    by code_simp
  have nz: "vendor_id atmel_ice \<noteq> 0 \<or> product_id atmel_ice \<noteq> 0"
    by (simp add: example_defs)
  have bd: "malloc_bdata ?H" by (simp add: example_defs)
  have op: "hid_open_path_ret ?H (path atmel_ice) = Some 1" by (simp add: example_defs)
  have nomem: "malloc_packet_buffer ?H
      (unat (lookup_report_size (vendor_id atmel_ice) (product_id atmel_ice) + REPORT_ID_SIZE))
      = None"
    by simp
  from alloc_failure_closes_handle [OF init scan nz bd op nomem, of example_state example_dap] op
  show ?thesis by blast
qed

lemma scan_loop_no_return:
  "\<forall>i. malloc_wserial H i \<Longrightarrow> scan_loop H ids serial i devs \<noteq> Return_Fail"
  by (induction devs arbitrary: i) (auto split: option.splits)

text \<open>
  Every return of open with the two allocations in hand has given the enumeration
  back.
\<close>

lemma open_enumeration_released:
  assumes "cmsis_dap_hid_open H W dap ids serial = Returns (r, W', dap')"
    and "malloc_bdata H" and "\<forall>i. malloc_wserial H i"
  shows "live_enumerations W' = live_enumerations W"
  using assms scan_loop_no_return [of H ids serial 0 "hid_enumerate_ret H"]
  by (auto simp: cmsis_dap_hid_open_def open_device_def cmsis_dap_hid_alloc_def
      cmsis_dap_hid_close_def cmsis_dap_hid_free_def Let_def
      split: if_splits scan_exit.splits option.splits)

text \<open>
  The two returns that keep it: after a failed allocation of the serial number
  buffer, and after a failed allocation of the backend data.
\<close>

lemma open_wserial_failure_keeps_enumeration:
  assumes "hid_init_ret H = 0"
    and "scan_loop H ids serial 0 (hid_enumerate_ret H) = Return_Fail"
  shows "cmsis_dap_hid_open H W dap ids serial
           = Returns (Inl ERROR_FAIL,
                      W\<lparr>hid_initialized := True,
                        live_enumerations := Suc (live_enumerations W)\<rparr>, dap)"
  using assms by (simp add: cmsis_dap_hid_open_def)

lemma open_bdata_failure_keeps_enumeration:
  assumes "hid_init_ret H = 0"
    and "scan_loop H ids serial 0 (hid_enumerate_ret H) = Loop_Done (Some d)"
    and "vendor_id d \<noteq> 0 \<or> product_id d \<noteq> 0"
    and "\<not> malloc_bdata H"
  shows "cmsis_dap_hid_open H W dap ids serial
           = Returns (Inl ERROR_FAIL,
                      W\<lparr>hid_initialized := True,
                        live_enumerations := Suc (live_enumerations W)\<rparr>,
                      dap\<lparr>bdata := None\<rparr>)"
  using assms by (auto simp: cmsis_dap_hid_open_def open_device_def Let_def)

text \<open>
  Claim C8 asks that the enumeration is released on every return of open. The two
  returns after a failed \<open>malloc\<close> (line 128, the serial number buffer, and line 158,
  the backend data) come before any \<open>hid_free_enumeration\<close>: with one device
  enumerated and either allocation failing, open returns \<open>ERROR_FAIL\<close> and the
  enumeration is still live.
\<close>

theorem open_malloc_failure_keeps_enumeration:
  "cmsis_dap_hid_open (example_host\<lparr>hid_enumerate_ret := [daplink], malloc_bdata := False\<rparr>)
       example_state example_dap [] None
     = Returns (Inl ERROR_FAIL,
                example_state\<lparr>hid_initialized := True, live_enumerations := 1\<rparr>, example_dap)
   \<and> cmsis_dap_hid_open
       (example_host\<lparr>hid_enumerate_ret := [daplink], malloc_wserial := (\<lambda>i. False)\<rparr>)
       example_state example_dap [] (Some ''0240'')
     = Returns (Inl ERROR_FAIL,
                example_state\<lparr>hid_initialized := True, live_enumerations := 1\<rparr>, example_dap)"
  by code_simp

text \<open>
  When \<open>mbstowcs\<close> rejects the serial number and every allocation succeeds, the scan
  never selects a device: it has undefined behaviour at the first device that is found
  and has a serial number, and ends without a device when there is none.
\<close>

lemma scan_loop_conversion_failure:
  "mbstowcs_ret H s = None \<Longrightarrow> \<forall>i. malloc_wserial H i \<Longrightarrow>
   scan_loop H ids (Some s) i devs
     = (if \<exists>d \<in> set devs. device_found ids d \<and> serial_number d \<noteq> None
        then Scan_Undefined else Loop_Done None)"
  by (induction devs arbitrary: i) (auto split: option.splits)

text \<open>
  Claim C7 asks that a failure of the conversion of the serial number makes open
  return an error. The result of \<open>mbstowcs\<close> is not looked at: when it reports an
  invalid sequence and the allocation of \<open>len = 0\<close> wide characters yields a block,
  open goes on to compare the block, which was never written, with the device's serial
  number, and does not return \<open>ERROR_FAIL\<close> for the conversion. Only when that
  allocation fails does open return an error.
\<close>

theorem open_conversion_failure_not_reported:
  "cmsis_dap_hid_open
       (example_host\<lparr>hid_enumerate_ret := [daplink], mbstowcs_ret := (\<lambda>s. None)\<rparr>)
       example_state example_dap [] (Some [CHR 0xE9])
     = Undefined
   \<and> cmsis_dap_hid_open
       (example_host\<lparr>hid_enumerate_ret := [daplink], mbstowcs_ret := (\<lambda>s. None),
                      malloc_wserial := (\<lambda>i. False)\<rparr>)
       example_state example_dap [] (Some [CHR 0xE9])
     = Returns (Inl ERROR_FAIL,
                example_state\<lparr>hid_initialized := True, live_enumerations := 1\<rparr>, example_dap)"
  by code_simp

end
